theory Spec2Isabelle
  imports Main "HOL-Library.Word"
begin

section \<open>Shared memory on QNX Neutrino: \<open>src/backend/port/nto_shmem.c\<close>\<close>

subsection \<open>Name derivation: \<open>GenerateSHMName\<close>\<close>

text \<open>
  \<open>DataDir\<close> is a C string; it is modelled by the list of its characters before the
  terminating NUL, so the loop \<^verbatim>\<open>for (dd = DataDir; *dd; ++dd)\<close> is a recursion over
  that list. The counter \<^verbatim>\<open>int chars\<close> is a 32-bit two's complement integer:
  \<^verbatim>\<open>chars++ < 2\<close> compares the old value (signed) and increments in either case.
  The accumulator \<open>name\<close> is the string held in the destination buffer;
  \<^verbatim>\<open>strncat(name, dd, 1)\<close> appends the single character under \<open>dd\<close>.
\<close>

fun GenerateSHMName_loop :: "32 word \<Rightarrow> string \<Rightarrow> string \<Rightarrow> string" where
  "GenerateSHMName_loop chars name [] = name"
| "GenerateSHMName_loop chars name (c # dd) =
     (if c = CHR ''/'' then GenerateSHMName_loop 0 name dd
      else if chars <s 2 then GenerateSHMName_loop (chars + 1) (name @ [c]) dd
      else GenerateSHMName_loop (chars + 1) name dd)"

text \<open>
  \<open>GenerateSHMName\<close> yields the string the function writes through its argument:
  \<^verbatim>\<open>strcpy(name, "/PostgreSQL.")\<close> followed by the loop. The test
  \<^verbatim>\<open>name == NULL\<close> after the copy can never hold for the callers' stack arrays.
  Nothing in the function looks at the capacity of the destination.
\<close>

definition GenerateSHMName :: "string \<Rightarrow> string" where
  "GenerateSHMName datadir = GenerateSHMName_loop 0 ''/PostgreSQL.'' datadir"

text \<open>
  Every caller passes \<^verbatim>\<open>char name[64]\<close>. A string of \<open>n\<close> characters occupies
  \<open>n + 1\<close> bytes, the last being the terminator.
\<close>

definition NAME_BUF :: nat where
  "NAME_BUF = 64"

definition name_fits :: "string \<Rightarrow> bool" where
  "name_fits name \<longleftrightarrow> length name + 1 \<le> NAME_BUF"

text \<open>
  The specification's wording of the derivation, for comparison with the code: the path is
  cut at the separators, each segment contributes its first two characters (fewer when it
  is shorter), and the contributions follow the fixed prefix in path order.
\<close>

function path_segments :: "string \<Rightarrow> string list" where
  "path_segments p =
     (case dropWhile (\<lambda>c. c \<noteq> CHR ''/'') p of
        [] \<Rightarrow> [takeWhile (\<lambda>c. c \<noteq> CHR ''/'') p]
      | _ # rest \<Rightarrow> takeWhile (\<lambda>c. c \<noteq> CHR ''/'') p # path_segments rest)"
  by pat_completeness auto
termination
proof (relation "measure length")
  show "wf (measure length)" by simp
next
  fix p :: string and x rest
  assume "dropWhile (\<lambda>c. c \<noteq> CHR ''/'') p = x # rest"
  then have "length (x # rest) \<le> length p"
    by (metis length_dropWhile_le)
  then show "(rest, p) \<in> measure length" by simp
qed

definition spec_name :: "string \<Rightarrow> string" where
  "spec_name p = ''/PostgreSQL.'' @ concat (map (take 2) (path_segments p))"


subsection \<open>Error reports\<close>

text \<open>
  \<open>errno\<close> values the model distinguishes; \<open>EOK\<close> is 0. The source compares
  \<open>errno\<close> with \<open>EFBIG\<close> and \<open>ENOMEM\<close> only.
\<close>

datatype errno_val =
  EOK | EFBIG | ENOMEM | EEXIST | ENOENT | EACCES | EINVAL | EMFILE | EBADF | ENAMETOOLONG

text \<open>
  \<open>errcode_for_file_access\<close> (elog.c) is not among the sources: its result, which is
  computed from \<open>errno\<close>, is kept symbolic as \<open>ERRCODE_FILE_ACCESS errno\<close>.
\<close>

datatype sqlerrcode =
  ERRCODE_OUT_OF_MEMORY | ERRCODE_FEATURE_NOT_SUPPORTED | ERRCODE_FILE_ACCESS errno_val

definition errcode_for_dynamic_shared_memory :: "errno_val \<Rightarrow> sqlerrcode" where
  "errcode_for_dynamic_shared_memory en =
     (if en = EFBIG \<or> en = ENOMEM then ERRCODE_OUT_OF_MEMORY else ERRCODE_FILE_ACCESS en)"

datatype elevel = ERROR | FATAL

text \<open>
  A call \<^verbatim>\<open>ereport(level, (errcode..., errmsg(fmt, ...)))\<close> leaves the function at once.
  \<open>Ereport level code fmt\<close> records the level, the error code the call site passes
  (\<open>None\<close> when the call site has no \<open>errcode\<close> item, only \<open>errmsg\<close>) and the format
  string. \<open>TrapAssert\<close> is a failed \<open>Assert\<close>. \<open>NameOverrun\<close> stands for the undefined
  behaviour of \<open>GenerateSHMName\<close> writing past the end of the caller's
  \<^verbatim>\<open>char name[64]\<close>: the model stops there.
\<close>

datatype failure = Ereport elevel "sqlerrcode option" string | TrapAssert | NameOverrun

subsection \<open>Build configuration, process state and the operating system\<close>

datatype huge_pages_setting = HUGE_PAGES_OFF | HUGE_PAGES_ON | HUGE_PAGES_TRY

text \<open>
  What the preprocessor and the headers outside the sources decide: whether
  \<open>EXEC_BACKEND\<close> and \<open>MAP_HUGETLB\<close> are defined, whether \<open>Assert\<close> is compiled in
  (\<open>USE_ASSERT_CHECKING\<close>), \<open>sizeof(PGShmemHeader)\<close>, the alignment used by
  \<open>MAXALIGN\<close>, and the constant \<open>PGShmemMagic\<close>.
\<close>

record build =
  EXEC_BACKEND :: bool
  MAP_HUGETLB :: bool
  USE_ASSERT_CHECKING :: bool
  sizeof_PGShmemHeader :: nat
  MAXIMUM_ALIGNOF :: nat
  PGShmemMagic :: int

text \<open>
  Modelled from the spec: the macro \<open>MAXALIGN\<close> (c.h) is not among the sources. The
  specification calls \<open>MAXALIGN(sizeof(PGShmemHeader))\<close> the aligned header size, an
  aligned offset marking the end of the header space: the length rounded up to the next
  multiple of the build's maximum alignment.
\<close>

definition MAXALIGN :: "build \<Rightarrow> nat \<Rightarrow> nat" where
  "MAXALIGN b len =
     ((len + (MAXIMUM_ALIGNOF b - 1)) div MAXIMUM_ALIGNOF b) * MAXIMUM_ALIGNOF b"

text \<open>The fields of \<open>PGShmemHeader\<close> that the source assigns.\<close>

record PGShmemHeader =
  magic :: int
  creatorPID :: int
  totalsize :: nat
  freeoffset :: nat
  dsm_control :: nat

type_synonym addr = nat

abbreviation NULL :: addr where
  "NULL \<equiv> 0"

text \<open>
  A descriptor returned by \<open>shm_open\<close> is modelled by the name of the object it refers
  to. Every request to the operating system and to the C library's allocator is logged,
  in order, in \<open>calls\<close>.
\<close>

type_synonym shm_fd = string

datatype call =
  ShmOpen string bool
  | Close shm_fd
  | ShmUnlink string
  | Fstat shm_fd
  | Ftruncate shm_fd nat
  | Mmap nat shm_fd
  | Munmap addr "32 word"
  | Getpid
  | Strdup string
  | Free string

text \<open>
  How the operating system answers: for each request that can fail for want of resources
  or permission, the \<open>errno\<close> it fails with (\<open>None\<close>: it does not fail for such a
  reason); the address \<open>mmap\<close> chooses; the caller's process id.
\<close>

record os_env =
  shm_open_fault :: "errno_val option"
  fstat_fault :: "errno_val option"
  ftruncate_fault :: "errno_val option"
  mmap_fault :: "errno_val option"
  munmap_fault :: "errno_val option"
  shm_unlink_fault :: "errno_val option"
  mmap_addr :: addr
  pid :: int

datatype callback = PGSharedMemoryDelete_callback

text \<open>
  The globals the source reads and writes (\<open>DataDir\<close>, \<open>huge_pages\<close>,
  \<open>UsedShmemSegAddr\<close>, \<open>UsedShmemSegSize\<close> declared \<^verbatim>\<open>int\<close>, \<open>errno\<close>), the list of
  callbacks registered with \<open>on_shmem_exit\<close>, the namespace of shared-memory objects
  (name to size), the headers stored at mapped addresses, and the log of requests.
\<close>

record machine =
  DataDir :: string
  huge_pages :: huge_pages_setting
  UsedShmemSegAddr :: addr
  UsedShmemSegSize :: "32 word"
  errno :: errno_val
  on_shmem_exit_list :: "(callback \<times> string) list"
  shm_objects :: "string \<rightharpoonup> nat"
  memory :: "addr \<rightharpoonup> PGShmemHeader"
  calls :: "call list"

definition log_call :: "call \<Rightarrow> machine \<Rightarrow> machine" where
  "log_call c s = s\<lparr>calls := calls s @ [c]\<rparr>"

text \<open>
  \<^verbatim>\<open>shm_open(name, O_RDWR | O_CREAT [| O_EXCL], 0600)\<close>; \<open>Inl en\<close> is the return value
  \<open>-1\<close> with \<open>errno = en\<close>. With \<open>O_EXCL\<close> an existing name fails with \<open>EEXIST\<close>; a new
  object has size 0.
\<close>

definition shm_open :: "os_env \<Rightarrow> string \<Rightarrow> bool \<Rightarrow> machine \<Rightarrow> (errno_val + shm_fd) \<times> machine" where
  "shm_open e name excl s =
     (let s1 = log_call (ShmOpen name excl) s in
      case shm_open_fault e of
        Some en \<Rightarrow> (Inl en, s1\<lparr>errno := en\<rparr>)
      | None \<Rightarrow>
          (case shm_objects s1 name of
             Some sz \<Rightarrow> if excl then (Inl EEXIST, s1\<lparr>errno := EEXIST\<rparr>) else (Inr name, s1)
           | None \<Rightarrow> (Inr name, s1\<lparr>shm_objects := (shm_objects s1)(name \<mapsto> 0)\<rparr>)))"

definition close_fd :: "shm_fd \<Rightarrow> machine \<Rightarrow> machine" where
  "close_fd fd s = log_call (Close fd) s"

definition shm_unlink :: "os_env \<Rightarrow> string \<Rightarrow> machine \<Rightarrow> (errno_val + unit) \<times> machine" where
  "shm_unlink e name s =
     (let s1 = log_call (ShmUnlink name) s in
      case shm_unlink_fault e of
        Some en \<Rightarrow> (Inl en, s1\<lparr>errno := en\<rparr>)
      | None \<Rightarrow>
          (case shm_objects s1 name of
             None \<Rightarrow> (Inl ENOENT, s1\<lparr>errno := ENOENT\<rparr>)
           | Some sz \<Rightarrow> (Inr (), s1\<lparr>shm_objects := (shm_objects s1)(name := None)\<rparr>)))"

definition fstat :: "os_env \<Rightarrow> shm_fd \<Rightarrow> machine \<Rightarrow> (errno_val + nat) \<times> machine" where
  "fstat e fd s =
     (let s1 = log_call (Fstat fd) s in
      case fstat_fault e of
        Some en \<Rightarrow> (Inl en, s1\<lparr>errno := en\<rparr>)
      | None \<Rightarrow>
          (case shm_objects s1 fd of
             None \<Rightarrow> (Inl EBADF, s1\<lparr>errno := EBADF\<rparr>)
           | Some sz \<Rightarrow> (Inr sz, s1)))"

definition ftruncate :: "os_env \<Rightarrow> shm_fd \<Rightarrow> nat \<Rightarrow> machine \<Rightarrow> (errno_val + unit) \<times> machine" where
  "ftruncate e fd len s =
     (let s1 = log_call (Ftruncate fd len) s in
      case ftruncate_fault e of
        Some en \<Rightarrow> (Inl en, s1\<lparr>errno := en\<rparr>)
      | None \<Rightarrow> (Inr (), s1\<lparr>shm_objects := (shm_objects s1)(fd \<mapsto> len)\<rparr>))"

text \<open>\<open>Inl en\<close> is the return value \<open>MAP_FAILED\<close> with \<open>errno = en\<close>.\<close>

definition mmap :: "os_env \<Rightarrow> nat \<Rightarrow> shm_fd \<Rightarrow> machine \<Rightarrow> (errno_val + addr) \<times> machine" where
  "mmap e len fd s =
     (let s1 = log_call (Mmap len fd) s in
      case mmap_fault e of
        Some en \<Rightarrow> (Inl en, s1\<lparr>errno := en\<rparr>)
      | None \<Rightarrow> (Inr (mmap_addr e), s1))"

definition munmap :: "os_env \<Rightarrow> addr \<Rightarrow> 32 word \<Rightarrow> machine \<Rightarrow> (errno_val + unit) \<times> machine" where
  "munmap e a len s =
     (let s1 = log_call (Munmap a len) s in
      case munmap_fault e of
        Some en \<Rightarrow> (Inl en, s1\<lparr>errno := en\<rparr>)
      | None \<Rightarrow> (Inr (), s1))"

definition getpid :: "os_env \<Rightarrow> machine \<Rightarrow> int \<times> machine" where
  "getpid e s = (pid e, log_call Getpid s)"

definition strdup :: "string \<Rightarrow> machine \<Rightarrow> string \<times> machine" where
  "strdup str s = (str, log_call (Strdup str) s)"

definition free :: "string \<Rightarrow> machine \<Rightarrow> machine" where
  "free str s = log_call (Free str) s"

definition on_shmem_exit :: "callback \<Rightarrow> string \<Rightarrow> machine \<Rightarrow> machine" where
  "on_shmem_exit f arg s = s\<lparr>on_shmem_exit_list := on_shmem_exit_list s @ [(f, arg)]\<rparr>"

subsection \<open>\<open>PGSharedMemoryIsInUse\<close>\<close>

text \<open>
  The two parameters are \<^verbatim>\<open>unsigned long\<close>; the body never mentions them. The results
  of \<open>close\<close> and \<open>shm_unlink\<close> are discarded.
\<close>

definition PGSharedMemoryIsInUse :: "os_env \<Rightarrow> nat \<Rightarrow> nat \<Rightarrow> machine \<Rightarrow> (failure + bool) \<times> machine" where
  "PGSharedMemoryIsInUse e id1 id2 s =
     (let name = GenerateSHMName (DataDir s) in
      if \<not> name_fits name then (Inl NameOverrun, s)
      else
        (case shm_open e name True s of
           (Inl en, s1) \<Rightarrow> (Inr True, s1)
         | (Inr fd, s1) \<Rightarrow> (Inr False, snd (shm_unlink e name (close_fd fd s1)))))"

subsection \<open>\<open>PGSharedMemoryDetach\<close> and \<open>PGSharedMemoryDelete\<close>\<close>

text \<open>
  \<^verbatim>\<open>UsedShmemSegAddr != NULL && -1 == munmap(...)\<close>: \<open>munmap\<close> is requested only when
  the address is not \<open>NULL\<close>. After the test both globals are reset
  (\<^verbatim>\<open>UsedShmemSegSize = NULL\<close> stores 0).
\<close>

definition PGSharedMemoryDetach :: "os_env \<Rightarrow> machine \<Rightarrow> (failure + unit) \<times> machine" where
  \<open>PGSharedMemoryDetach e s =
     (let name = GenerateSHMName (DataDir s) in
      if \<not> name_fits name then (Inl NameOverrun, s)
      else if UsedShmemSegAddr s \<noteq> NULL then
        (case munmap e (UsedShmemSegAddr s) (UsedShmemSegSize s) s of
           (Inl en, s1) \<Rightarrow>
             (Inl (Ereport FATAL (Some (errcode_for_dynamic_shared_memory (errno s1)))
                ''could not unmap shared memory segment "%s": %m''), s1)
         | (Inr u, s1) \<Rightarrow> (Inr (), s1\<lparr>UsedShmemSegAddr := NULL, UsedShmemSegSize := 0\<rparr>))
      else (Inr (), s\<lparr>UsedShmemSegAddr := NULL, UsedShmemSegSize := 0\<rparr>))\<close>

text \<open>
  The exit callback. \<open>dname\<close> is the pointer argument, modelled by the string it points
  to; \<open>status\<close> is not used.
\<close>

definition PGSharedMemoryDelete :: "os_env \<Rightarrow> int \<Rightarrow> string \<Rightarrow> machine \<Rightarrow> (failure + unit) \<times> machine" where
  \<open>PGSharedMemoryDelete e status dname s =
     (case PGSharedMemoryDetach e s of
        (Inl f, s1) \<Rightarrow> (Inl f, s1)
      | (Inr u, s1) \<Rightarrow>
          (case shm_unlink e dname s1 of
             (Inl en, s2) \<Rightarrow>
               (Inl (Ereport FATAL (Some (errcode_for_dynamic_shared_memory (errno s2)))
                  ''could not remove shared memory segment "%s": %m''), s2)
           | (Inr u', s2) \<Rightarrow> (Inr (), free dname s2)))\<close>

subsection \<open>\<open>PGSharedMemoryCreate\<close>\<close>

text \<open>
  The function is given in three parts, last part first. \<open>Size\<close> values are natural
  numbers; the parameters \<open>makePrivate\<close> and \<open>port\<close> are not used by the body. The result
  is the address returned as \<^verbatim>\<open>PGShmemHeader *\<close>, which is also stored through
  \<open>shim\<close>; the header itself is in \<open>memory\<close> at that address.

  Lines 157 to 171: the header fields are written into the mapped memory, the mapping is
  recorded in the globals (the \<open>Size\<close> is converted to \<^verbatim>\<open>int\<close>), the descriptor is
  closed and the exit callback is registered with a copy of the name.
\<close>

definition PGSharedMemoryCreate_init ::
  "build \<Rightarrow> os_env \<Rightarrow> nat \<Rightarrow> string \<Rightarrow> shm_fd \<Rightarrow> addr \<Rightarrow> machine \<Rightarrow> (failure + addr) \<times> machine" where
  "PGSharedMemoryCreate_init b e sz name fd address s =
     (let (mypid, s1) = getpid e s;
          hdr = \<lparr>magic = PGShmemMagic b, creatorPID = mypid, totalsize = sz,
                 freeoffset = MAXALIGN b (sizeof_PGShmemHeader b), dsm_control = 0\<rparr>;
          s2 = s1\<lparr>memory := (memory s1)(address \<mapsto> hdr)\<rparr>;
          s3 = s2\<lparr>UsedShmemSegAddr := address, UsedShmemSegSize := of_nat sz\<rparr>;
          s4 = close_fd fd s3;
          (copy, s5) = strdup name s4;
          s6 = on_shmem_exit PGSharedMemoryDelete_callback copy s5
      in (Inr address, s6))"

text \<open>Lines 147 to 155: the object is mapped; a failure closes the descriptor and is fatal.\<close>

definition PGSharedMemoryCreate_map ::
  "build \<Rightarrow> os_env \<Rightarrow> nat \<Rightarrow> string \<Rightarrow> shm_fd \<Rightarrow> machine \<Rightarrow> (failure + addr) \<times> machine" where
  \<open>PGSharedMemoryCreate_map b e sz name fd s =
     (case mmap e sz fd s of
        (Inl en, s1) \<Rightarrow>
          (let s2 = close_fd fd s1 in
           (Inl (Ereport FATAL (Some (errcode_for_dynamic_shared_memory (errno s2)))
              ''could not map shared memory segment "%s": %m''), s2))
      | (Inr address, s1) \<Rightarrow> PGSharedMemoryCreate_init b e sz name fd address s1)\<close>

text \<open>
  Lines 113 to 145: the huge-pages test, present when \<open>EXEC_BACKEND\<close> is defined or
  \<open>MAP_HUGETLB\<close> is not; the \<open>Assert\<close> on the size; the name; the reset of
  \<open>UsedShmemSegAddr\<close>; \<open>shm_open\<close> without \<open>O_EXCL\<close>, whose failure is reported with
  \<open>errmsg\<close> alone; \<open>fstat\<close>; and \<open>ftruncate\<close>, requested only when the size differs,
  whose failure is reported with \<open>errmsg\<close> alone.
\<close>

definition PGSharedMemoryCreate ::
  "build \<Rightarrow> os_env \<Rightarrow> nat \<Rightarrow> bool \<Rightarrow> int \<Rightarrow> machine \<Rightarrow> (failure + addr) \<times> machine" where
  \<open>PGSharedMemoryCreate b e sz makePrivate port s =
     (if (EXEC_BACKEND b \<or> \<not> MAP_HUGETLB b) \<and> huge_pages s = HUGE_PAGES_ON then
        (Inl (Ereport ERROR (Some ERRCODE_FEATURE_NOT_SUPPORTED)
           ''huge pages not supported on this platform''), s)
      else if USE_ASSERT_CHECKING b \<and> \<not> (sz > MAXALIGN b (sizeof_PGShmemHeader b)) then
        (Inl TrapAssert, s)
      else
        (let name = GenerateSHMName (DataDir s) in
         if \<not> name_fits name then (Inl NameOverrun, s)
         else
           (case shm_open e name False (s\<lparr>UsedShmemSegAddr := NULL\<rparr>) of
              (Inl en, s1) \<Rightarrow>
                (Inl (Ereport FATAL None
                   ''could not create shared memory segment: error code %d''), s1)
            | (Inr fd, s1) \<Rightarrow>
                (case fstat e fd s1 of
                   (Inl en, s2) \<Rightarrow>
                     (let s3 = close_fd fd s2 in
                      (Inl (Ereport FATAL (Some (errcode_for_dynamic_shared_memory (errno s3)))
                         ''could not stat shared memory segment "%s": %m''), s3))
                 | (Inr st_size, s2) \<Rightarrow>
                     (if sz \<noteq> st_size then
                        (case ftruncate e fd sz s2 of
                           (Inl en, s3) \<Rightarrow>
                             (let s4 = close_fd fd s3 in
                              (Inl (Ereport FATAL None
                                 ''could not resize shared memory segment "%s": %m''), s4))
                         | (Inr u, s3) \<Rightarrow> PGSharedMemoryCreate_map b e sz name fd s3)
                      else PGSharedMemoryCreate_map b e sz name fd s2)))))\<close>

subsection \<open>Concrete configurations\<close>

text \<open>
  A production build for QNX (no \<open>EXEC_BACKEND\<close>, no \<open>MAP_HUGETLB\<close>, \<open>Assert\<close> compiled
  out), the same build with assertion checking, an operating system that grants every
  request, and a freshly started process whose data directory is
  \<^verbatim>\<open>/var/lib/postgresql/data\<close>.
\<close>

definition build_qnx :: build where
  "build_qnx = \<lparr>EXEC_BACKEND = False, MAP_HUGETLB = False, USE_ASSERT_CHECKING = False,
     sizeof_PGShmemHeader = 24, MAXIMUM_ALIGNOF = 8, PGShmemMagic = 679834894\<rparr>"

definition build_cassert :: build where
  "build_cassert = build_qnx\<lparr>USE_ASSERT_CHECKING := True\<rparr>"

definition os_ok :: os_env where
  "os_ok = \<lparr>shm_open_fault = None, fstat_fault = None, ftruncate_fault = None,
     mmap_fault = None, munmap_fault = None, shm_unlink_fault = None,
     mmap_addr = 1073741824, pid = 4242\<rparr>"

definition boot :: machine where
  "boot = \<lparr>DataDir = ''/var/lib/postgresql/data'', huge_pages = HUGE_PAGES_TRY,
     UsedShmemSegAddr = NULL, UsedShmemSegSize = 0, errno = EOK, on_shmem_exit_list = [],
     shm_objects = Map.empty, memory = Map.empty, calls = []\<rparr>"

text \<open>A data directory forty levels deep, each level named \<^verbatim>\<open>ab\<close>.\<close>

definition deep_path :: string where
  "deep_path = concat (replicate 40 ''/ab'')"

text \<open>
  The process right after \<open>PGSharedMemoryCreate\<close> has succeeded for 8192 bytes in the
  production build.
\<close>

definition running :: machine where
  "running = snd (PGSharedMemoryCreate build_qnx os_ok 8192 False 5432 boot)"

text \<open>
  Joining segments with the separator: the inverse of \<open>path_segments\<close>, used to state
  that \<open>path_segments\<close> cuts the path exactly at its separators.
\<close>

fun join_segments :: "string list \<Rightarrow> string" where
  "join_segments [] = []"
| "join_segments [seg] = seg"
| "join_segments (seg # segs) = seg @ CHR ''/'' # join_segments segs"

section \<open>Properties\<close>

subsection \<open>Auxiliary facts\<close>

lemmas sys_defs = shm_open_def close_fd_def shm_unlink_def fstat_def ftruncate_def mmap_def
  munmap_def getpid_def strdup_def free_def on_shmem_exit_def log_call_def

lemmas example_defs = build_qnx_def build_cassert_def os_ok_def boot_def

lemma sless_of_nat: "n < 2 ^ 31 \<Longrightarrow> ((of_nat n :: 32 word) <s 2) = (n < 2)"
  by (simp add: word_sless_alt signed_of_nat signed_take_bit_int_eq_self)

declare path_segments.simps [simp del]

lemma path_segments_Nil: "path_segments [] = [[]]"
  by (simp add: path_segments.simps)

lemma path_segments_sep: "path_segments (CHR ''/'' # p) = [] # path_segments p"
  by (simp add: path_segments.simps [of "CHR ''/'' # p"])

lemma path_segments_not_Nil: "path_segments p \<noteq> []"
  by (subst path_segments.simps) (simp split: list.split)

lemma path_segments_chr:
  assumes "c \<noteq> CHR ''/''"
  shows "path_segments (c # p) = (c # hd (path_segments p)) # tl (path_segments p)"
proof (cases "dropWhile (\<lambda>c. c \<noteq> CHR ''/'') p")
  case Nil
  then show ?thesis using assms
    by (simp add: path_segments.simps [of "c # p"] path_segments.simps [of p]
        del: dropWhile_eq_Nil_conv)
next
  case (Cons x rest)
  then show ?thesis using assms
    by (simp add: path_segments.simps [of "c # p"] path_segments.simps [of p])
qed

lemma join_path_segments: "join_segments (path_segments p) = p"
proof (induction p)
  case Nil
  show ?case by (simp add: path_segments_Nil)
next
  case (Cons c p)
  obtain seg segs where ps: "path_segments p = seg # segs"
    using path_segments_not_Nil [of p] by (cases "path_segments p") auto
  show ?case
  proof (cases "c = CHR ''/''")
    case True
    with Cons ps show ?thesis by (simp add: path_segments_sep)
  next
    case False
    with Cons ps show ?thesis by (cases segs) (simp_all add: path_segments_chr)
  qed
qed

lemma no_sep_in_path_segments: "CHR ''/'' \<notin> set (concat (path_segments p))"
proof (induction p)
  case Nil
  show ?case by (simp add: path_segments_Nil)
next
  case (Cons c p)
  obtain seg segs where ps: "path_segments p = seg # segs"
    using path_segments_not_Nil [of p] by (cases "path_segments p") auto
  with Cons show ?case
    by (cases "c = CHR ''/''") (auto simp: path_segments_sep path_segments_chr)
qed

lemma no_sep_in_prefixes:
  "CHR ''/'' \<notin> set (concat segs) \<Longrightarrow> CHR ''/'' \<notin> set (concat (map (take 2) segs))"
  by (induction segs) (auto dest: in_set_takeD)

text \<open>The loop, started with any counter below the point of overflow.\<close>

lemma GenerateSHMName_loop_segments:
  "n + length dd < 2 ^ 31 \<Longrightarrow>
   GenerateSHMName_loop (of_nat n) name dd =
     name @ take (2 - n) (hd (path_segments dd)) @ concat (map (take 2) (tl (path_segments dd)))"
proof (induction dd arbitrary: n name)
  case Nil
  then show ?case by (simp add: path_segments_Nil)
next
  case (Cons c dd)
  show ?case
  proof (cases "c = CHR ''/''")
    case True
    have "GenerateSHMName_loop (of_nat 0) name dd =
      name @ take (2 - 0) (hd (path_segments dd)) @ concat (map (take 2) (tl (path_segments dd)))"
      using Cons.prems by (intro Cons.IH) simp
    moreover have "take 2 (hd (path_segments dd)) @ concat (map (take 2) (tl (path_segments dd)))
        = concat (map (take 2) (path_segments dd))"
      using path_segments_not_Nil [of dd] by (cases "path_segments dd") simp_all
    ultimately show ?thesis using True by (simp add: path_segments_sep)
  next
    case False
    have n: "n < 2 ^ 31" using Cons.prems by simp
    have "GenerateSHMName_loop (of_nat (Suc n)) nm dd =
      nm @ take (2 - Suc n) (hd (path_segments dd)) @ concat (map (take 2) (tl (path_segments dd)))"
      for nm
      using Cons.prems by (intro Cons.IH) simp
    then have step: "GenerateSHMName_loop (of_nat n + 1) nm dd =
      nm @ take (2 - Suc n) (hd (path_segments dd)) @ concat (map (take 2) (tl (path_segments dd)))"
      for nm
      by (simp add: add.commute)
    show ?thesis
    proof (cases "n < 2")
      case True
      then have "take (2 - n) (c # hd (path_segments dd)) =
          c # take (2 - Suc n) (hd (path_segments dd))"
        by (cases n) simp_all
      then show ?thesis using False True sless_of_nat [OF n]
        by (simp add: path_segments_chr step)
    next
      case past: False
      then show ?thesis using False sless_of_nat [OF n]
        by (simp add: path_segments_chr step)
    qed
  qed
qed

lemma GenerateSHMName_spec_name: "length p < 2 ^ 31 \<Longrightarrow> GenerateSHMName p = spec_name p"
  using GenerateSHMName_loop_segments [of 0 p "''/PostgreSQL.''"] path_segments_not_Nil [of p]
  by (cases "path_segments p") (simp_all add: GenerateSHMName_def spec_name_def)

text \<open>Two-character segments never move the counter past 2, whatever their number.\<close>

lemma GenerateSHMName_loop_replicate:
  "GenerateSHMName_loop chars name (concat (replicate n ''/ab'')) =
     name @ concat (replicate n ''ab'')"
  by (induction n arbitrary: chars name) (simp_all add: word_sless_alt)

lemma GenerateSHMName_replicate_length:
  "length (GenerateSHMName (concat (replicate n ''/ab''))) = 12 + 2 * n"
  by (simp add: GenerateSHMName_def GenerateSHMName_loop_replicate length_concat sum_list_replicate)

lemma deep_name_length: "length (GenerateSHMName deep_path) = 92"
  by (simp add: deep_path_def GenerateSHMName_replicate_length)

lemma boot_name: "GenerateSHMName ''/var/lib/postgresql/data'' = ''/PostgreSQL.valipoda''"
  by (simp add: GenerateSHMName_def word_sless_alt)

lemma boot_name_fits: "name_fits ''/PostgreSQL.valipoda''"
  by (simp add: name_fits_def NAME_BUF_def)

lemmas create_defs =
  PGSharedMemoryCreate_def PGSharedMemoryCreate_map_def PGSharedMemoryCreate_init_def

lemma MAXALIGN_dvd: "MAXIMUM_ALIGNOF b dvd MAXALIGN b len"
  by (simp add: MAXALIGN_def)

lemma MAXALIGN_ge:
  assumes "0 < MAXIMUM_ALIGNOF b"
  shows "len \<le> MAXALIGN b len"
proof -
  define a where "a = MAXIMUM_ALIGNOF b"
  define m where "m = len + (a - 1)"
  have "m = (m div a) * a + m mod a" by simp
  moreover have "m mod a \<le> a - 1"
    using assms a_def by (metis Suc_pred' less_Suc_eq_le mod_less_divisor)
  ultimately have "len \<le> (m div a) * a"
    unfolding m_def by linarith
  then show ?thesis
    by (simp add: MAXALIGN_def m_def a_def)
qed

lemma PGSharedMemoryCreate_init_result:
  "PGSharedMemoryCreate_init b e sz name fd a s = (r, s') \<Longrightarrow>
     r = Inr a \<and>
     memory s' a = Some \<lparr>magic = PGShmemMagic b, creatorPID = pid e, totalsize = sz,
       freeoffset = MAXALIGN b (sizeof_PGShmemHeader b), dsm_control = 0\<rparr> \<and>
     shm_objects s' = shm_objects s \<and> DataDir s' = DataDir s"
  by (auto simp: PGSharedMemoryCreate_init_def Let_def sys_defs)

lemma PGSharedMemoryCreate_map_result:
  "PGSharedMemoryCreate_map b e sz name fd s = (Inr a, s') \<Longrightarrow>
     memory s' a = Some \<lparr>magic = PGShmemMagic b, creatorPID = pid e, totalsize = sz,
       freeoffset = MAXALIGN b (sizeof_PGShmemHeader b), dsm_control = 0\<rparr> \<and>
     shm_objects s' = shm_objects s \<and> DataDir s' = DataDir s"
  unfolding PGSharedMemoryCreate_map_def
  by (auto simp: mmap_def close_fd_def log_call_def Let_def
      split: option.splits prod.splits sum.splits dest!: PGSharedMemoryCreate_init_result)

lemma PGSharedMemoryCreate_result:
  "PGSharedMemoryCreate b e sz makePrivate port s = (Inr a, s') \<Longrightarrow>
     memory s' a = Some \<lparr>magic = PGShmemMagic b, creatorPID = pid e, totalsize = sz,
       freeoffset = MAXALIGN b (sizeof_PGShmemHeader b), dsm_control = 0\<rparr> \<and>
     shm_objects s' (GenerateSHMName (DataDir s)) \<noteq> None \<and> DataDir s' = DataDir s"
  unfolding PGSharedMemoryCreate_def
  by (auto simp: shm_open_def fstat_def ftruncate_def close_fd_def log_call_def Let_def
      split: option.splits prod.splits sum.splits if_splits
      dest!: PGSharedMemoryCreate_map_result)

text \<open>
  With an operating system that grants every request, creation succeeds whenever the
  tests before \<open>shm_open\<close> pass.
\<close>

lemma PGSharedMemoryCreate_succeeds:
  assumes "huge_pages s \<noteq> HUGE_PAGES_ON" and "MAXALIGN b (sizeof_PGShmemHeader b) < sz"
    and "name_fits (GenerateSHMName (DataDir s))"
    and "shm_open_fault e = None" and "fstat_fault e = None" and "ftruncate_fault e = None"
    and "mmap_fault e = None"
  shows "fst (PGSharedMemoryCreate b e sz makePrivate port s) = Inr (mmap_addr e)"
  using assms
  by (auto simp: create_defs sys_defs Let_def split: option.splits)

text \<open>Whatever \<open>errno\<close> is, a failure of \<open>shm_open\<close> is reported without an error code.\<close>

lemma PGSharedMemoryCreate_shm_open_failure:
  assumes "huge_pages s \<noteq> HUGE_PAGES_ON" and "MAXALIGN b (sizeof_PGShmemHeader b) < sz"
    and "name_fits (GenerateSHMName (DataDir s))"
    and "shm_open e (GenerateSHMName (DataDir s)) False (s\<lparr>UsedShmemSegAddr := NULL\<rparr>) = (Inl en, s1)"
  shows "PGSharedMemoryCreate b e sz makePrivate port s =
    (Inl (Ereport FATAL None ''could not create shared memory segment: error code %d''), s1)"
  using assms by (simp add: PGSharedMemoryCreate_def)

lemma PGSharedMemoryDetach_calls:
  "PGSharedMemoryDetach e s = (r, s1) \<Longrightarrow>
     calls s1 = calls s @ (if r = Inl NameOverrun \<or> UsedShmemSegAddr s = NULL then []
                           else [Munmap (UsedShmemSegAddr s) (UsedShmemSegSize s)])"
  by (auto simp: PGSharedMemoryDetach_def Let_def munmap_def log_call_def
      split: option.splits if_splits)

lemma PGSharedMemoryDelete_result:
  "PGSharedMemoryDelete e status dname s = (Inr (), s') \<Longrightarrow> shm_objects s' dname = None"
  by (auto simp: PGSharedMemoryDelete_def shm_unlink_def free_def log_call_def Let_def
      split: option.splits prod.splits sum.splits)

lemma running_eq:
  "running = boot\<lparr>UsedShmemSegAddr := 1073741824, UsedShmemSegSize := 8192,
     on_shmem_exit_list := [(PGSharedMemoryDelete_callback, ''/PostgreSQL.valipoda'')],
     shm_objects := [''/PostgreSQL.valipoda'' \<mapsto> 8192],
     memory := [1073741824 \<mapsto> \<lparr>magic = 679834894, creatorPID = 4242, totalsize = 8192,
       freeoffset = 24, dsm_control = 0\<rparr>],
     calls := [ShmOpen ''/PostgreSQL.valipoda'' False, Fstat ''/PostgreSQL.valipoda'',
       Ftruncate ''/PostgreSQL.valipoda'' 8192, Mmap 8192 ''/PostgreSQL.valipoda'', Getpid,
       Close ''/PostgreSQL.valipoda'', Strdup ''/PostgreSQL.valipoda'']\<rparr>"
  by (simp add: running_def create_defs Let_def example_defs boot_name boot_name_fits sys_defs
      MAXALIGN_def)

subsection \<open>The derived name\<close>

text \<open>
  C6. For a data-directory path (shorter than \<open>2 ^ 31\<close> characters, so that the
  \<^verbatim>\<open>int\<close> counter cannot overflow), the derived name is the fixed prefix followed by
  the first two characters (fewer for a shorter segment) of each path segment, in path
  order, where the segments are the pieces of the path between its separators. No
  separator occurs after the twelve characters of the prefix. The path
  \<^verbatim>\<open>/var/lib/postgresql/data\<close> gives the prefix followed by \<^verbatim>\<open>valipoda\<close>.
\<close>

theorem GenerateSHMName_two_per_segment:
  assumes "length p < 2 ^ 31"
  shows "GenerateSHMName p = ''/PostgreSQL.'' @ concat (map (take 2) (path_segments p)) \<and>
         join_segments (path_segments p) = p \<and>
         CHR ''/'' \<notin> set (concat (path_segments p)) \<and>
         CHR ''/'' \<notin> set (drop 12 (GenerateSHMName p)) \<and>
         GenerateSHMName ''/var/lib/postgresql/data'' = ''/PostgreSQL.valipoda''"
proof -
  have name: "GenerateSHMName p = ''/PostgreSQL.'' @ concat (map (take 2) (path_segments p))"
    using GenerateSHMName_spec_name [OF assms] by (simp add: spec_name_def)
  have "CHR ''/'' \<notin> set (concat (map (take 2) (path_segments p)))"
    by (rule no_sep_in_prefixes) (rule no_sep_in_path_segments)
  then have "CHR ''/'' \<notin> set (drop 12 (GenerateSHMName p))"
    by (simp add: name)
  then show ?thesis
    using name join_path_segments [of p] no_sep_in_path_segments [of p] boot_name by blast
qed

theorem GenerateSHMName_two_per_segment_witness:
  "length ''/var//lib/pg/d'' < (2::nat) ^ 31 \<and>
   path_segments ''/var//lib/pg/d'' = [[], ''var'', [], ''lib'', ''pg'', ''d''] \<and>
   GenerateSHMName ''/var//lib/pg/d'' = ''/PostgreSQL.valipgd''"
proof -
  have len: "length ''/var//lib/pg/d'' < (2::nat) ^ 31" by simp
  have segs: "path_segments ''/var//lib/pg/d'' = [[], ''var'', [], ''lib'', ''pg'', ''d'']"
    by (simp add: path_segments_sep path_segments_chr path_segments_Nil)
  show ?thesis
    using len segs GenerateSHMName_two_per_segment [OF len] by simp
qed

text \<open>
  C2. The claim is that the derived name is cut to the capacity of the callers' 64-byte
  buffer. The function has no such bound: a data directory forty levels deep, each level
  named \<^verbatim>\<open>ab\<close>, yields a name of 92 characters, more than the prefix plus 63 characters
  and more than the 63 characters and terminator the buffer holds, so the write runs past
  the end of \<^verbatim>\<open>char name[64]\<close> in \<open>PGSharedMemoryIsInUse\<close>.
\<close>

theorem GenerateSHMName_overruns_name_buffer:
  "length deep_path = 120 \<and>
   length (GenerateSHMName deep_path) = 92 \<and>
   \<not> length (GenerateSHMName deep_path) \<le> length ''/PostgreSQL.'' + 63 \<and>
   \<not> name_fits (GenerateSHMName deep_path) \<and>
   PGSharedMemoryIsInUse os_ok 0 0 (boot\<lparr>DataDir := deep_path\<rparr>) =
     (Inl NameOverrun, boot\<lparr>DataDir := deep_path\<rparr>)"
proof -
  have "length deep_path = 120"
    by (simp add: deep_path_def length_concat sum_list_replicate)
  moreover have "\<not> name_fits (GenerateSHMName deep_path)"
    by (simp add: name_fits_def NAME_BUF_def deep_name_length)
  ultimately show ?thesis
    by (simp add: deep_name_length PGSharedMemoryIsInUse_def)
qed

subsection \<open>The liveness probe\<close>

text \<open>
  C10. The result of \<open>PGSharedMemoryIsInUse\<close> does not depend on its two arguments: with
  the same operating system and process state, any two pairs of arguments give the same
  outcome. More than that, the boolean is the same for any two process states that agree
  on the data directory and on whether an object of the derived name exists.
\<close>

theorem PGSharedMemoryIsInUse_ignores_ids:
  assumes "DataDir s' = DataDir s"
    and "shm_objects s' (GenerateSHMName (DataDir s)) = shm_objects s (GenerateSHMName (DataDir s))"
  shows "PGSharedMemoryIsInUse e id1' id2' s = PGSharedMemoryIsInUse e id1 id2 s \<and>
         fst (PGSharedMemoryIsInUse e id1' id2' s') = fst (PGSharedMemoryIsInUse e id1 id2 s)"
  using assms
  by (auto simp: PGSharedMemoryIsInUse_def Let_def shm_open_def log_call_def
      split: option.splits)

theorem PGSharedMemoryIsInUse_ignores_ids_witness:
  "DataDir (boot\<lparr>errno := EACCES, calls := [Getpid]\<rparr>) = DataDir boot \<and>
   shm_objects (boot\<lparr>errno := EACCES, calls := [Getpid]\<rparr>) (GenerateSHMName (DataDir boot)) =
     shm_objects boot (GenerateSHMName (DataDir boot)) \<and>
   PGSharedMemoryIsInUse os_ok 7 9 boot = PGSharedMemoryIsInUse os_ok 1 2 boot \<and>
   fst (PGSharedMemoryIsInUse os_ok 7 9 (boot\<lparr>errno := EACCES, calls := [Getpid]\<rparr>)) =
     fst (PGSharedMemoryIsInUse os_ok 1 2 boot) \<and>
   fst (PGSharedMemoryIsInUse os_ok 1 2 boot) = Inr False"
proof -
  have a: "DataDir (boot\<lparr>errno := EACCES, calls := [Getpid]\<rparr>) = DataDir boot"
    by simp
  have b: "shm_objects (boot\<lparr>errno := EACCES, calls := [Getpid]\<rparr>) (GenerateSHMName (DataDir boot)) =
     shm_objects boot (GenerateSHMName (DataDir boot))"
    by simp
  have c: "fst (PGSharedMemoryIsInUse os_ok 1 2 boot) = Inr False"
    by (simp add: PGSharedMemoryIsInUse_def Let_def example_defs boot_name boot_name_fits sys_defs)
  show ?thesis
    using a b c PGSharedMemoryIsInUse_ignores_ids [OF a b, of os_ok 7 9 1 2] by simp
qed

text \<open>
  C1. When the derived name fits the buffer, \<open>PGSharedMemoryIsInUse\<close> requests an
  exclusive create of the object of that name. If the request fails, the result is true
  and nothing else is requested. If it succeeds, the descriptor is closed, removal of the
  object just created is requested (which restores the namespace when the removal is
  granted) and the result is false. Hence the result is true whenever an object of
  that name exists, in particular right after \<open>PGSharedMemoryCreate\<close> has succeeded; and
  it is false when no such object exists and the create is not refused for another
  reason, in particular right after \<open>PGSharedMemoryDelete\<close> has succeeded for that name.
\<close>

theorem PGSharedMemoryIsInUse_probe:
  assumes fits: "name_fits (GenerateSHMName (DataDir s))"
  shows "(\<forall>en s1. shm_open e (GenerateSHMName (DataDir s)) True s = (Inl en, s1) \<longrightarrow>
            PGSharedMemoryIsInUse e id1 id2 s = (Inr True, s1) \<and>
            calls s1 = calls s @ [ShmOpen (GenerateSHMName (DataDir s)) True]) \<and>
         (\<forall>fd s1. shm_open e (GenerateSHMName (DataDir s)) True s = (Inr fd, s1) \<longrightarrow>
            (\<exists>s2. PGSharedMemoryIsInUse e id1 id2 s = (Inr False, s2) \<and>
               calls s2 = calls s @ [ShmOpen (GenerateSHMName (DataDir s)) True, Close fd,
                                     ShmUnlink (GenerateSHMName (DataDir s))] \<and>
               (shm_unlink_fault e = None \<longrightarrow> shm_objects s2 = shm_objects s))) \<and>
         (shm_objects s (GenerateSHMName (DataDir s)) \<noteq> None \<longrightarrow>
            fst (PGSharedMemoryIsInUse e id1 id2 s) = Inr True) \<and>
         (shm_objects s (GenerateSHMName (DataDir s)) = None \<and> shm_open_fault e = None \<longrightarrow>
            fst (PGSharedMemoryIsInUse e id1 id2 s) = Inr False) \<and>
         (\<forall>b e0 sz makePrivate port s0 a.
            PGSharedMemoryCreate b e0 sz makePrivate port s0 = (Inr a, s) \<longrightarrow>
            fst (PGSharedMemoryIsInUse e id1 id2 s) = Inr True) \<and>
         (\<forall>e0 status s0.
            PGSharedMemoryDelete e0 status (GenerateSHMName (DataDir s)) s0 = (Inr (), s) \<and>
            shm_open_fault e = None \<longrightarrow>
            fst (PGSharedMemoryIsInUse e id1 id2 s) = Inr False)"
proof -
  let ?name = "GenerateSHMName (DataDir s)"
  have failing: "\<forall>en s1. shm_open e ?name True s = (Inl en, s1) \<longrightarrow>
      PGSharedMemoryIsInUse e id1 id2 s = (Inr True, s1) \<and>
      calls s1 = calls s @ [ShmOpen ?name True]"
    using fits
    by (auto simp: PGSharedMemoryIsInUse_def Let_def shm_open_def log_call_def
        split: option.splits if_splits)
  have created: "\<forall>fd s1. shm_open e ?name True s = (Inr fd, s1) \<longrightarrow>
      (\<exists>s2. PGSharedMemoryIsInUse e id1 id2 s = (Inr False, s2) \<and>
         calls s2 = calls s @ [ShmOpen ?name True, Close fd, ShmUnlink ?name] \<and>
         (shm_unlink_fault e = None \<longrightarrow> shm_objects s2 = shm_objects s))"
    using fits
    by (auto simp: PGSharedMemoryIsInUse_def Let_def sys_defs split: option.splits if_splits)
  have present: "fst (PGSharedMemoryIsInUse e id1 id2 s) = Inr True"
    if "shm_objects s ?name \<noteq> None"
    using fits that
    by (auto simp: PGSharedMemoryIsInUse_def Let_def shm_open_def log_call_def
        split: option.splits)
  have absent: "fst (PGSharedMemoryIsInUse e id1 id2 s) = Inr False"
    if "shm_objects s ?name = None" and "shm_open_fault e = None"
    using fits that
    by (auto simp: PGSharedMemoryIsInUse_def Let_def shm_open_def log_call_def
        split: option.splits)
  have after_create: "fst (PGSharedMemoryIsInUse e id1 id2 s) = Inr True"
    if "PGSharedMemoryCreate b e0 sz makePrivate port s0 = (Inr a, s)"
    for b e0 sz makePrivate port s0 a
  proof -
    from PGSharedMemoryCreate_result [OF that]
    have "shm_objects s (GenerateSHMName (DataDir s0)) \<noteq> None" and "DataDir s = DataDir s0"
      by simp_all
    then show ?thesis using present by simp
  qed
  have after_delete: "fst (PGSharedMemoryIsInUse e id1 id2 s) = Inr False"
    if "PGSharedMemoryDelete e0 status ?name s0 = (Inr (), s)" and "shm_open_fault e = None"
    for e0 status s0
    using absent [OF PGSharedMemoryDelete_result [OF that(1)] that(2)] .
  show ?thesis
    using failing created present absent after_create after_delete by blast
qed

theorem PGSharedMemoryIsInUse_probe_witness:
  "name_fits (GenerateSHMName (DataDir boot)) \<and>
   name_fits (GenerateSHMName (DataDir running)) \<and>
   shm_objects boot (GenerateSHMName (DataDir boot)) = None \<and>
   shm_open_fault os_ok = None \<and>
   fst (PGSharedMemoryIsInUse os_ok 1 2 boot) = Inr False \<and>
   shm_objects running (GenerateSHMName (DataDir running)) = Some 8192 \<and>
   fst (PGSharedMemoryIsInUse os_ok 1 2 running) = Inr True"
proof -
  have f0: "name_fits (GenerateSHMName (DataDir boot))"
    by (simp add: boot_def boot_name boot_name_fits)
  have f1: "name_fits (GenerateSHMName (DataDir running))"
    by (simp add: running_eq boot_def boot_name boot_name_fits)
  have a0: "shm_objects boot (GenerateSHMName (DataDir boot)) = None"
    by (simp add: boot_def)
  have e0: "shm_open_fault os_ok = None"
    by (simp add: os_ok_def)
  have p1: "shm_objects running (GenerateSHMName (DataDir running)) = Some 8192"
    by (simp add: running_eq boot_def boot_name)
  from PGSharedMemoryIsInUse_probe [OF f0, of os_ok 1 2] a0 e0
  have r0: "fst (PGSharedMemoryIsInUse os_ok 1 2 boot) = Inr False"
    by blast
  from PGSharedMemoryIsInUse_probe [OF f1, of os_ok 1 2] p1
  have r1: "fst (PGSharedMemoryIsInUse os_ok 1 2 running) = Inr True"
    by simp
  show ?thesis
    using f0 f1 a0 e0 p1 r0 r1 by simp
qed

subsection \<open>Creation\<close>

text \<open>
  C9. In a build that cannot provide huge pages (\<open>EXEC_BACKEND\<close> defined, or
  \<open>MAP_HUGETLB\<close> not defined), \<open>PGSharedMemoryCreate\<close> called while \<open>huge_pages\<close> is
  \<open>on\<close> fails with the error code for an unsupported feature and leaves the whole state
  as it was: nothing has been requested from the operating system, so no object has been
  opened, created, resized or mapped.
\<close>

theorem PGSharedMemoryCreate_huge_pages_unsupported:
  assumes "EXEC_BACKEND b \<or> \<not> MAP_HUGETLB b" and "huge_pages s = HUGE_PAGES_ON"
  shows "PGSharedMemoryCreate b e sz makePrivate port s =
           (Inl (Ereport ERROR (Some ERRCODE_FEATURE_NOT_SUPPORTED)
              ''huge pages not supported on this platform''), s) \<and>
         calls (snd (PGSharedMemoryCreate b e sz makePrivate port s)) = calls s \<and>
         shm_objects (snd (PGSharedMemoryCreate b e sz makePrivate port s)) = shm_objects s"
  using assms by (simp add: PGSharedMemoryCreate_def)

theorem PGSharedMemoryCreate_huge_pages_unsupported_witness:
  "(EXEC_BACKEND build_qnx \<or> \<not> MAP_HUGETLB build_qnx) \<and>
   huge_pages (boot\<lparr>huge_pages := HUGE_PAGES_ON\<rparr>) = HUGE_PAGES_ON \<and>
   fst (PGSharedMemoryCreate build_qnx os_ok 8192 False 5432 (boot\<lparr>huge_pages := HUGE_PAGES_ON\<rparr>)) =
     Inl (Ereport ERROR (Some ERRCODE_FEATURE_NOT_SUPPORTED)
       ''huge pages not supported on this platform'') \<and>
   calls (snd (PGSharedMemoryCreate build_qnx os_ok 8192 False 5432
     (boot\<lparr>huge_pages := HUGE_PAGES_ON\<rparr>))) = []"
proof -
  have a: "EXEC_BACKEND build_qnx \<or> \<not> MAP_HUGETLB build_qnx"
    by (simp add: build_qnx_def)
  have b: "huge_pages (boot\<lparr>huge_pages := HUGE_PAGES_ON\<rparr>) = HUGE_PAGES_ON"
    by simp
  have c: "calls (boot\<lparr>huge_pages := HUGE_PAGES_ON\<rparr>) = []"
    by (simp add: boot_def)
  show ?thesis
    using a b c PGSharedMemoryCreate_huge_pages_unsupported [OF a b, of os_ok 8192 False 5432]
    by simp
qed

text \<open>
  C3. The claim is that a failure of \<open>PGSharedMemoryCreate\<close> to open or create the object
  is fatal and is classified as out of memory when \<open>errno\<close> indicates exhausted
  resources, otherwise as a file-access error. The failure is fatal, but its report
  carries no error code at all: with \<open>shm_open\<close> failing with \<open>ENOMEM\<close>, which
  \<open>errcode_for_dynamic_shared_memory\<close> maps to \<open>ERRCODE_OUT_OF_MEMORY\<close>, the report has
  the message only. The same \<open>errno\<close> from \<open>mmap\<close> is classified.
\<close>

theorem PGSharedMemoryCreate_shm_open_failure_unclassified:
  "fst (PGSharedMemoryCreate build_qnx (os_ok\<lparr>shm_open_fault := Some ENOMEM\<rparr>) 8192 False 5432 boot) =
     Inl (Ereport FATAL None ''could not create shared memory segment: error code %d'') \<and>
   errno (snd (PGSharedMemoryCreate build_qnx (os_ok\<lparr>shm_open_fault := Some ENOMEM\<rparr>)
     8192 False 5432 boot)) = ENOMEM \<and>
   errcode_for_dynamic_shared_memory ENOMEM = ERRCODE_OUT_OF_MEMORY \<and>
   (\<exists>msg. fst (PGSharedMemoryCreate build_qnx (os_ok\<lparr>mmap_fault := Some ENOMEM\<rparr>)
      8192 False 5432 boot) = Inl (Ereport FATAL (Some ERRCODE_OUT_OF_MEMORY) msg))"
  by (simp add: create_defs Let_def example_defs boot_name boot_name_fits sys_defs
      MAXALIGN_def errcode_for_dynamic_shared_memory_def)

text \<open>
  C4, as stated, for every build: a size not greater than the aligned header size makes
  \<open>PGSharedMemoryCreate\<close> fail before any request to the operating system. In the
  production build \<open>Assert\<close> is compiled out: with a size of 8 against an aligned header
  size of 24 the object is opened, resized, mapped and the call returns the header.
\<close>

theorem PGSharedMemoryCreate_small_size_unchecked:
  "\<not> USE_ASSERT_CHECKING build_qnx \<and>
   MAXALIGN build_qnx (sizeof_PGShmemHeader build_qnx) = 24 \<and>
   fst (PGSharedMemoryCreate build_qnx os_ok 8 False 5432 boot) = Inr 1073741824 \<and>
   calls (snd (PGSharedMemoryCreate build_qnx os_ok 8 False 5432 boot)) =
     [ShmOpen ''/PostgreSQL.valipoda'' False, Fstat ''/PostgreSQL.valipoda'',
      Ftruncate ''/PostgreSQL.valipoda'' 8, Mmap 8 ''/PostgreSQL.valipoda'', Getpid,
      Close ''/PostgreSQL.valipoda'', Strdup ''/PostgreSQL.valipoda''] \<and>
   shm_objects (snd (PGSharedMemoryCreate build_qnx os_ok 8 False 5432 boot))
     ''/PostgreSQL.valipoda'' = Some 8"
  by (simp add: create_defs Let_def example_defs boot_name boot_name_fits sys_defs MAXALIGN_def)

text \<open>
  C4, amended. In a build with assertion checking (\<open>USE_ASSERT_CHECKING\<close>), for every size
  not greater than the aligned header size, \<open>PGSharedMemoryCreate\<close> fails, by the failed
  \<open>Assert\<close> or by the huge-pages error tested before it, and leaves the whole state as it
  was: nothing has been requested from the operating system, no object has been opened or
  created.
\<close>

theorem PGSharedMemoryCreate_Assert_size:
  assumes "USE_ASSERT_CHECKING b" and "sz \<le> MAXALIGN b (sizeof_PGShmemHeader b)"
  shows "(\<exists>f. PGSharedMemoryCreate b e sz makePrivate port s = (Inl f, s) \<and>
            (f = TrapAssert \<or>
             f = Ereport ERROR (Some ERRCODE_FEATURE_NOT_SUPPORTED)
                   ''huge pages not supported on this platform'')) \<and>
         calls (snd (PGSharedMemoryCreate b e sz makePrivate port s)) = calls s \<and>
         shm_objects (snd (PGSharedMemoryCreate b e sz makePrivate port s)) = shm_objects s"
  using assms by (auto simp: PGSharedMemoryCreate_def)

theorem PGSharedMemoryCreate_Assert_size_witness:
  "USE_ASSERT_CHECKING build_cassert \<and>
   (8::nat) \<le> MAXALIGN build_cassert (sizeof_PGShmemHeader build_cassert) \<and>
   PGSharedMemoryCreate build_cassert os_ok 8 False 5432 boot = (Inl TrapAssert, boot) \<and>
   PGSharedMemoryCreate build_cassert os_ok 24 False 5432 boot = (Inl TrapAssert, boot) \<and>
   calls (snd (PGSharedMemoryCreate build_cassert os_ok 8 False 5432 boot)) = []"
proof -
  have a: "USE_ASSERT_CHECKING build_cassert"
    by (simp add: example_defs)
  have b: "(8::nat) \<le> MAXALIGN build_cassert (sizeof_PGShmemHeader build_cassert)"
    by (simp add: example_defs MAXALIGN_def)
  have c: "PGSharedMemoryCreate build_cassert os_ok 8 False 5432 boot = (Inl TrapAssert, boot)"
    by (simp add: PGSharedMemoryCreate_def example_defs MAXALIGN_def)
  have d: "PGSharedMemoryCreate build_cassert os_ok 24 False 5432 boot = (Inl TrapAssert, boot)"
    by (simp add: PGSharedMemoryCreate_def example_defs MAXALIGN_def)
  have "calls boot = []"
    by (simp add: boot_def)
  with PGSharedMemoryCreate_Assert_size [OF a b, of os_ok False 5432 boot]
  have "calls (snd (PGSharedMemoryCreate build_cassert os_ok 8 False 5432 boot)) = []"
    by simp
  with a b c d show ?thesis by simp
qed

text \<open>
  C5. For every size greater than the aligned header size, when \<open>PGSharedMemoryCreate\<close>
  succeeds the header at the returned address has \<open>magic\<close> equal to \<open>PGShmemMagic\<close>,
  \<open>totalsize\<close> equal to the size, \<open>freeoffset\<close> equal to the aligned header size and
  \<open>dsm_control\<close> zero. For a positive alignment and a header of positive size the
  \<open>freeoffset\<close> is a multiple of the alignment, greater than zero and less than the size.
\<close>

theorem PGSharedMemoryCreate_header:
  assumes "MAXALIGN b (sizeof_PGShmemHeader b) < sz"
    and "PGSharedMemoryCreate b e sz makePrivate port s = (Inr a, s')"
    and "0 < MAXIMUM_ALIGNOF b" and "0 < sizeof_PGShmemHeader b"
  shows "\<exists>h. memory s' a = Some h \<and>
           magic h = PGShmemMagic b \<and>
           totalsize h = sz \<and>
           freeoffset h = MAXALIGN b (sizeof_PGShmemHeader b) \<and>
           dsm_control h = 0 \<and>
           MAXIMUM_ALIGNOF b dvd freeoffset h \<and>
           0 < freeoffset h \<and>
           freeoffset h < sz"
proof -
  let ?h = "\<lparr>magic = PGShmemMagic b, creatorPID = pid e, totalsize = sz,
    freeoffset = MAXALIGN b (sizeof_PGShmemHeader b), dsm_control = 0\<rparr>"
  have "memory s' a = Some ?h"
    using PGSharedMemoryCreate_result [OF assms(2)] by simp
  moreover have "0 < MAXALIGN b (sizeof_PGShmemHeader b)"
    using MAXALIGN_ge [OF assms(3), of "sizeof_PGShmemHeader b"] assms(4) by linarith
  ultimately show ?thesis
    using assms(1) MAXALIGN_dvd [of b "sizeof_PGShmemHeader b"] by simp
qed

theorem PGSharedMemoryCreate_header_witness:
  "MAXALIGN build_qnx (sizeof_PGShmemHeader build_qnx) < 8192 \<and>
   PGSharedMemoryCreate build_qnx os_ok 8192 False 5432 boot = (Inr 1073741824, running) \<and>
   0 < MAXIMUM_ALIGNOF build_qnx \<and> 0 < sizeof_PGShmemHeader build_qnx \<and>
   memory running 1073741824 = Some \<lparr>magic = 679834894, creatorPID = 4242, totalsize = 8192,
     freeoffset = 24, dsm_control = 0\<rparr> \<and>
   (\<exists>h. memory running 1073741824 = Some h \<and> magic h = PGShmemMagic build_qnx \<and>
      totalsize h = 8192 \<and> freeoffset h = 24 \<and> dsm_control h = 0 \<and>
      (8::nat) dvd freeoffset h \<and> 0 < freeoffset h \<and> freeoffset h < 8192)"
proof -
  have a: "MAXALIGN build_qnx (sizeof_PGShmemHeader build_qnx) < 8192"
    by (simp add: example_defs MAXALIGN_def)
  have "fst (PGSharedMemoryCreate build_qnx os_ok 8192 False 5432 boot) = Inr 1073741824"
    by (simp add: create_defs Let_def example_defs boot_name boot_name_fits sys_defs MAXALIGN_def)
  then have b: "PGSharedMemoryCreate build_qnx os_ok 8192 False 5432 boot = (Inr 1073741824, running)"
    by (simp add: running_def prod_eq_iff)
  have c: "0 < MAXIMUM_ALIGNOF build_qnx" and d: "0 < sizeof_PGShmemHeader build_qnx"
    by (simp_all add: example_defs)
  have m: "memory running 1073741824 = Some \<lparr>magic = 679834894, creatorPID = 4242,
     totalsize = 8192, freeoffset = 24, dsm_control = 0\<rparr>"
    by (simp add: running_eq)
  have v: "MAXALIGN build_qnx (sizeof_PGShmemHeader build_qnx) = 24"
      "MAXIMUM_ALIGNOF build_qnx = 8"
    by (simp_all add: example_defs MAXALIGN_def)
  from PGSharedMemoryCreate_header [OF a b c d]
  have "\<exists>h. memory running 1073741824 = Some h \<and> magic h = PGShmemMagic build_qnx \<and>
      totalsize h = 8192 \<and> freeoffset h = 24 \<and> dsm_control h = 0 \<and>
      (8::nat) dvd freeoffset h \<and> 0 < freeoffset h \<and> freeoffset h < 8192"
    by (simp only: v)
  with a b c d m show ?thesis by blast
qed

subsection \<open>Detaching and the exit callback\<close>

text \<open>
  C7. \<open>PGSharedMemoryDetach\<close> is idempotent. When the derived name fits the buffer: if
  the handle shows a mapping and the operating system grants the unmapping, the call
  returns after exactly one \<open>munmap\<close> request for the recorded address and size, with the
  handle empty; and whenever a call returns, the handle is empty and a second call right
  after it, however the operating system would answer, returns without failure and leaves
  the state, the log of requests included, as it found it: no \<open>munmap\<close> is requested.
\<close>

theorem PGSharedMemoryDetach_idempotent:
  assumes fits: "name_fits (GenerateSHMName (DataDir s))"
  shows "(UsedShmemSegAddr s \<noteq> NULL \<and> munmap_fault e = None \<longrightarrow>
            (\<exists>s'. PGSharedMemoryDetach e s = (Inr (), s') \<and>
               calls s' = calls s @ [Munmap (UsedShmemSegAddr s) (UsedShmemSegSize s)] \<and>
               UsedShmemSegAddr s' = NULL \<and> UsedShmemSegSize s' = 0)) \<and>
         (\<forall>s'. PGSharedMemoryDetach e s = (Inr (), s') \<longrightarrow>
            UsedShmemSegAddr s' = NULL \<and>
            (\<forall>e'. PGSharedMemoryDetach e' s' = (Inr (), s') \<and>
               calls (snd (PGSharedMemoryDetach e' s')) = calls s'))"
  using fits
  by (auto simp: PGSharedMemoryDetach_def Let_def munmap_def log_call_def
      split: option.splits if_splits)

theorem PGSharedMemoryDetach_idempotent_witness:
  "name_fits (GenerateSHMName (DataDir running)) \<and>
   UsedShmemSegAddr running = 1073741824 \<and>
   munmap_fault os_ok = None \<and>
   fst (PGSharedMemoryDetach os_ok running) = Inr () \<and>
   calls (snd (PGSharedMemoryDetach os_ok running)) = calls running @ [Munmap 1073741824 8192] \<and>
   UsedShmemSegAddr (snd (PGSharedMemoryDetach os_ok running)) = NULL \<and>
   PGSharedMemoryDetach (os_ok\<lparr>munmap_fault := Some EINVAL\<rparr>)
       (snd (PGSharedMemoryDetach os_ok running)) =
     (Inr (), snd (PGSharedMemoryDetach os_ok running))"
proof -
  let ?s' = "snd (PGSharedMemoryDetach os_ok running)"
  have f: "name_fits (GenerateSHMName (DataDir running))"
    by (simp add: running_eq boot_def boot_name boot_name_fits)
  have a: "UsedShmemSegAddr running = 1073741824" and sz: "UsedShmemSegSize running = 8192"
    by (simp_all add: running_eq)
  have m: "munmap_fault os_ok = None"
    by (simp add: os_ok_def)
  note idem = PGSharedMemoryDetach_idempotent [OF f, of os_ok]
  from idem a m sz
  obtain s' where s': "PGSharedMemoryDetach os_ok running = (Inr (), s')"
    and c: "calls s' = calls running @ [Munmap 1073741824 8192]"
    by auto
  from idem s'
  have n: "UsedShmemSegAddr s' = NULL"
    and again: "PGSharedMemoryDetach (os_ok\<lparr>munmap_fault := Some EINVAL\<rparr>) s' = (Inr (), s')"
    by blast+
  from f a m s' c n again show ?thesis by simp
qed

text \<open>
  C8. \<open>PGSharedMemoryDelete\<close> runs \<open>PGSharedMemoryDetach\<close> first. If that fails, the
  failure is the outcome and removal is not requested. Otherwise removal of the named
  object is requested after the requests of the detach step. If the removal fails, the
  outcome is a fatal report carrying the error code computed from \<open>errno\<close>, and the copy
  of the name is not freed. If it succeeds, the object is gone from the namespace and the
  copy of the name is freed, after the removal.
\<close>

theorem PGSharedMemoryDelete_order:
  "(\<forall>f s1. PGSharedMemoryDetach e s = (Inl f, s1) \<longrightarrow>
      PGSharedMemoryDelete e status dname s = (Inl f, s1)) \<and>
   (\<forall>s1 en s2.
      PGSharedMemoryDetach e s = (Inr (), s1) \<and> shm_unlink e dname s1 = (Inl en, s2) \<longrightarrow>
      (\<exists>msg. PGSharedMemoryDelete e status dname s =
         (Inl (Ereport FATAL (Some (errcode_for_dynamic_shared_memory en)) msg), s2)) \<and>
      calls s2 = calls s @ (if UsedShmemSegAddr s = NULL then []
                            else [Munmap (UsedShmemSegAddr s) (UsedShmemSegSize s)])
                 @ [ShmUnlink dname]) \<and>
   (\<forall>s1 s2.
      PGSharedMemoryDetach e s = (Inr (), s1) \<and> shm_unlink e dname s1 = (Inr (), s2) \<longrightarrow>
      (\<exists>s'. PGSharedMemoryDelete e status dname s = (Inr (), s') \<and>
         calls s' = calls s @ (if UsedShmemSegAddr s = NULL then []
                               else [Munmap (UsedShmemSegAddr s) (UsedShmemSegSize s)])
                    @ [ShmUnlink dname, Free dname] \<and>
         shm_objects s' dname = None))"
proof (intro conjI allI impI)
  fix f s1
  assume "PGSharedMemoryDetach e s = (Inl f, s1)"
  then show "PGSharedMemoryDelete e status dname s = (Inl f, s1)"
    by (simp add: PGSharedMemoryDelete_def)
next
  fix s1 en s2
  assume a: "PGSharedMemoryDetach e s = (Inr (), s1) \<and> shm_unlink e dname s1 = (Inl en, s2)"
  then have "errno s2 = en"
    by (auto simp: shm_unlink_def log_call_def Let_def split: option.splits)
  with a show "\<exists>msg. PGSharedMemoryDelete e status dname s =
      (Inl (Ereport FATAL (Some (errcode_for_dynamic_shared_memory en)) msg), s2)"
    by (simp add: PGSharedMemoryDelete_def)
  from a have "calls s2 = calls s1 @ [ShmUnlink dname]"
    by (auto simp: shm_unlink_def log_call_def Let_def split: option.splits)
  with a show "calls s2 = calls s @ (if UsedShmemSegAddr s = NULL then []
      else [Munmap (UsedShmemSegAddr s) (UsedShmemSegSize s)]) @ [ShmUnlink dname]"
    by (simp add: PGSharedMemoryDetach_calls [of e s "Inr ()" s1])
next
  fix s1 s2
  assume a: "PGSharedMemoryDetach e s = (Inr (), s1) \<and> shm_unlink e dname s1 = (Inr (), s2)"
  then have u: "calls s2 = calls s1 @ [ShmUnlink dname] \<and> shm_objects s2 dname = None"
    by (auto simp: shm_unlink_def log_call_def Let_def split: option.splits)
  have d: "PGSharedMemoryDelete e status dname s = (Inr (), free dname s2)"
    using a by (simp add: PGSharedMemoryDelete_def)
  show "\<exists>s'. PGSharedMemoryDelete e status dname s = (Inr (), s') \<and>
      calls s' = calls s @ (if UsedShmemSegAddr s = NULL then []
        else [Munmap (UsedShmemSegAddr s) (UsedShmemSegSize s)])
        @ [ShmUnlink dname, Free dname] \<and>
      shm_objects s' dname = None"
    using a u d
    by (simp add: PGSharedMemoryDetach_calls [of e s "Inr ()" s1] free_def log_call_def)
qed

theorem PGSharedMemoryDelete_order_witness:
  "fst (PGSharedMemoryDetach os_ok running) = Inr () \<and>
   fst (shm_unlink os_ok ''/PostgreSQL.valipoda'' (snd (PGSharedMemoryDetach os_ok running))) = Inr () \<and>
   fst (PGSharedMemoryDelete os_ok 0 ''/PostgreSQL.valipoda'' running) = Inr () \<and>
   calls (snd (PGSharedMemoryDelete os_ok 0 ''/PostgreSQL.valipoda'' running)) =
     calls running @ [Munmap 1073741824 8192, ShmUnlink ''/PostgreSQL.valipoda'',
                      Free ''/PostgreSQL.valipoda''] \<and>
   shm_objects (snd (PGSharedMemoryDelete os_ok 0 ''/PostgreSQL.valipoda'' running))
     ''/PostgreSQL.valipoda'' = None \<and>
   fst (shm_unlink (os_ok\<lparr>shm_unlink_fault := Some EACCES\<rparr>) ''/PostgreSQL.valipoda''
     (snd (PGSharedMemoryDetach (os_ok\<lparr>shm_unlink_fault := Some EACCES\<rparr>) running))) = Inl EACCES \<and>
   (\<exists>msg. fst (PGSharedMemoryDelete (os_ok\<lparr>shm_unlink_fault := Some EACCES\<rparr>) 0
      ''/PostgreSQL.valipoda'' running) = Inl (Ereport FATAL (Some (ERRCODE_FILE_ACCESS EACCES)) msg)) \<and>
   calls (snd (PGSharedMemoryDelete (os_ok\<lparr>shm_unlink_fault := Some EACCES\<rparr>) 0
      ''/PostgreSQL.valipoda'' running)) =
     calls running @ [Munmap 1073741824 8192, ShmUnlink ''/PostgreSQL.valipoda'']"
proof -
  let ?nm = "''/PostgreSQL.valipoda''"
  let ?bad = "os_ok\<lparr>shm_unlink_fault := Some EACCES\<rparr>"
  have a: "UsedShmemSegAddr running = 1073741824" "UsedShmemSegSize running = 8192"
    by (simp_all add: running_eq)
  have f: "name_fits (GenerateSHMName (DataDir running))"
    by (simp add: running_eq boot_def boot_name boot_name_fits)
  have d: "fst (PGSharedMemoryDetach os_ok running) = Inr ()"
    using f a by (simp add: PGSharedMemoryDetach_def Let_def munmap_def log_call_def os_ok_def)
  have d': "fst (PGSharedMemoryDetach ?bad running) = Inr ()"
    using f a by (simp add: PGSharedMemoryDetach_def Let_def munmap_def log_call_def os_ok_def)
  have o: "shm_objects (snd (PGSharedMemoryDetach os_ok running)) ?nm = Some 8192"
    using f a
    by (simp add: PGSharedMemoryDetach_def Let_def munmap_def log_call_def os_ok_def running_eq)
  have u: "fst (shm_unlink os_ok ?nm (snd (PGSharedMemoryDetach os_ok running))) = Inr ()"
    using o by (simp add: shm_unlink_def Let_def log_call_def os_ok_def)
  have u': "fst (shm_unlink ?bad ?nm (snd (PGSharedMemoryDetach ?bad running))) = Inl EACCES"
    by (simp add: shm_unlink_def Let_def log_call_def os_ok_def)
  have dp: "PGSharedMemoryDetach os_ok running = (Inr (), snd (PGSharedMemoryDetach os_ok running))"
    using d by (simp add: prod_eq_iff)
  have up: "shm_unlink os_ok ?nm (snd (PGSharedMemoryDetach os_ok running)) =
      (Inr (), snd (shm_unlink os_ok ?nm (snd (PGSharedMemoryDetach os_ok running))))"
    using u by (simp add: prod_eq_iff)
  have dp': "PGSharedMemoryDetach ?bad running = (Inr (), snd (PGSharedMemoryDetach ?bad running))"
    using d' by (simp add: prod_eq_iff)
  have up': "shm_unlink ?bad ?nm (snd (PGSharedMemoryDetach ?bad running)) =
      (Inl EACCES, snd (shm_unlink ?bad ?nm (snd (PGSharedMemoryDetach ?bad running))))"
    using u' by (simp add: prod_eq_iff)
  from PGSharedMemoryDelete_order [of os_ok running 0 ?nm] dp up
  obtain s' where ok: "PGSharedMemoryDelete os_ok 0 ?nm running = (Inr (), s')"
    "calls s' = calls running @ [Munmap 1073741824 8192, ShmUnlink ?nm, Free ?nm]"
    "shm_objects s' ?nm = None"
    using a by auto
  have "(\<exists>msg. PGSharedMemoryDelete ?bad 0 ?nm running =
      (Inl (Ereport FATAL (Some (errcode_for_dynamic_shared_memory EACCES)) msg),
       snd (shm_unlink ?bad ?nm (snd (PGSharedMemoryDetach ?bad running))))) \<and>
    calls (snd (shm_unlink ?bad ?nm (snd (PGSharedMemoryDetach ?bad running)))) =
       calls running @ [Munmap 1073741824 8192, ShmUnlink ?nm]"
    using PGSharedMemoryDelete_order [of ?bad running 0 ?nm, THEN conjunct2, THEN conjunct1,
        rule_format, OF conjI [OF dp' up']] a
    by simp
  then obtain msg where bad: "PGSharedMemoryDelete ?bad 0 ?nm running =
      (Inl (Ereport FATAL (Some (errcode_for_dynamic_shared_memory EACCES)) msg),
       snd (shm_unlink ?bad ?nm (snd (PGSharedMemoryDetach ?bad running))))"
    "calls (snd (shm_unlink ?bad ?nm (snd (PGSharedMemoryDetach ?bad running)))) =
       calls running @ [Munmap 1073741824 8192, ShmUnlink ?nm]"
    by blast
  have code: "errcode_for_dynamic_shared_memory EACCES = ERRCODE_FILE_ACCESS EACCES"
    by (simp add: errcode_for_dynamic_shared_memory_def)
  from d u ok u' bad code show ?thesis by simp
qed

end
